theory Spec2Isabelle
  imports Complex_Main "HOL-Library.Word" "HOL-Library.Log_Nat"
begin

section \<open>BLMM results and inference stage: shallow embedding\<close>

text \<open>
  The development embeds the index bookkeeping of \<^verbatim>\<open>src/blmm_results.py\<close> (voxel
  groups, ring and inner subsets, the resolution of the unique product matrices) and the
  output bookkeeping of \<^verbatim>\<open>lib/blmm_inference.py\<close> (which names every statement reads
  and which volume and frame every block of statistics is written to). Numerical payloads
  (log-likelihood, covariance, T and F statistics) are computed by library routines that
  are not part of the two files and are not modelled; what is modelled is where their
  results go, and whether the statement that computes them is reached.
\<close>

subsection \<open>Errors\<close>

datatype py_error =
    ValueError
  | IndexError
  | OverflowError
  | UnboundLocalError
  | NameError

subsection \<open>float64 arithmetic\<close>

text \<open>
  A finite double is modelled as the rational number it denotes. \<open>rd\<close> rounds a rational
  to 53 significant bits, ties to even: \<open>expo x\<close> is the exponent \<open>e\<close> with
  \<open>2\<^sup>e \<le> x < 2\<^sup>e\<^sup>+\<^sup>1\<close> for a positive \<open>x\<close>, and the rounded value is the multiple of
  \<open>2\<^sup>e\<^sup>-\<^sup>5\<^sup>2\<close> nearest to \<open>x\<close>. The exponent range of doubles is not modelled (no
  overflow and no subnormal numbers): with a budget and a divisor in the int64 range and
  fewer than \<open>2\<^sup>6\<^sup>3\<close> voxels, every value met below lies between \<open>2\<^sup>-\<^sup>1\<^sup>2\<^sup>7\<close> and
  \<open>2\<^sup>1\<^sup>2\<^sup>7\<close> in magnitude, or is zero.
\<close>

definition expo :: "rat \<Rightarrow> int" where
  "expo x = (if 1 \<le> x then bitlen \<lfloor>x\<rfloor> - 1 else - bitlen (\<lceil>1 / x\<rceil> - 1))"

definition rne :: "rat \<Rightarrow> int" where
  "rne m = (let f = \<lfloor>m\<rfloor>; r = m - of_int f
            in if r < 1 / 2 then f else if 1 / 2 < r then f + 1
               else if even f then f else f + 1)"

definition rd :: "rat \<Rightarrow> rat" where
  "rd x = (if x = 0 then 0
           else let u = 2 powi (expo \<bar>x\<bar> - 52)
                in sgn x * of_int (rne (\<bar>x\<bar> / u)) * u)"

text \<open>
  \<open>trunc\<close> is the conversion \<^verbatim>\<open>int(x)\<close> of a finite double. \<open>fmod\<close> is the C function:
  exact, with the sign of the dividend. \<open>floor_divide\<close> is numpy's floor division of two
  doubles, for a finite \<open>a\<close> and a finite \<open>b\<close> other than zero: the rounded quotient of
  \<open>a - fmod a b\<close> by \<open>b\<close>, lowered by one when remainder and divisor differ in sign,
  then taken to the integer below it, or to the one above when it lies more than a half
  above its floor (\<open>md\<close> and \<open>dv\<close> are the variables \<^verbatim>\<open>mod\<close> and \<^verbatim>\<open>div\<close> of that
  routine). \<open>int64\<close> is the wrap-around of numpy's 64-bit integers.
\<close>

definition trunc :: "rat \<Rightarrow> int" where
  "trunc x = (if 0 \<le> x then \<lfloor>x\<rfloor> else \<lceil>x\<rceil>)"

definition fmod :: "rat \<Rightarrow> rat \<Rightarrow> rat" where
  "fmod a b = a - b * of_int (trunc (a / b))"

definition floor_divide :: "rat \<Rightarrow> rat \<Rightarrow> rat" where
  "floor_divide a b =
     (let md = fmod a b;
          dv = rd (rd (a - md) / b);
          dv = (if md \<noteq> 0 \<and> ((b < 0) \<noteq> (md < 0)) then rd (dv - 1) else dv)
      in if dv \<noteq> 0 then
           (let floordiv = of_int \<lfloor>dv\<rfloor>
            in if 1 / 2 < rd (dv - floordiv) then rd (floordiv + 1) else floordiv)
         else 0)"

definition int64 :: "int \<Rightarrow> int" where
  "int64 x = sint (word_of_int x :: 64 word)"

subsection \<open>Voxel groups: \<^verbatim>\<open>main\<close> of blmm\_results.py, lines 174 to 181\<close>

text \<open>
  \<^verbatim>\<open>nvb = MAXMEM/(10*8*(q**2))\<close>: \<open>q\<close> is a numpy int64 (the sum of an integer array),
  so \<^verbatim>\<open>q**2\<close> and its product with 80 wrap around; the true division converts both
  operands to doubles and rounds the quotient.
  \<^verbatim>\<open>nvg = int(len(bamInds)//nvb+1)\<close>: a floor division of doubles, an addition of
  doubles and a truncation.
  Where the divisor or the budget is zero the quotient is infinite, zero or not a number;
  those branches follow IEEE arithmetic as numpy applies it:
  a floor division by \<open>+\<infinity>\<close> gives \<open>0.0\<close>, a floor division by \<open>-\<infinity>\<close> of a positive
  number gives \<open>-1.0\<close>, and \<^verbatim>\<open>int\<close> raises on an infinity or a nan.
\<close>

definition nvb :: "int \<Rightarrow> int \<Rightarrow> rat" where
  "nvb MAXMEM q = rd (rd (of_int MAXMEM) / rd (of_int (int64 (10 * 8 * int64 (q\<^sup>2)))))"

definition nvg :: "int \<Rightarrow> int \<Rightarrow> int \<Rightarrow> py_error + int" where
  "nvg MAXMEM q len =
     (if int64 (10 * 8 * int64 (q\<^sup>2)) = 0 then
        (if MAXMEM > 0 then Inr 1
         else if MAXMEM = 0 then Inl ValueError
         else if len = 0 then Inr 1 else Inr 0)
      else if MAXMEM = 0 then
        (if len = 0 then Inl ValueError else Inl OverflowError)
      else Inr (trunc (rd (floor_divide (rd (of_int len)) (nvb MAXMEM q) + 1))))"





subsection \<open>numpy primitives used by the index bookkeeping\<close>

text \<open>
  \<^verbatim>\<open>np.where(b)[0]\<close> on a boolean column: the positions that hold True, ascending.
  \<^verbatim>\<open>np.in1d(a, b)\<close>: for every entry of \<open>a\<close>, whether it occurs in \<open>b\<close>.
  \<^verbatim>\<open>np.argsort\<close>: the permutation that sorts its argument (modelled as a stable sort;
  numpy's default sort is not stable, but every list it is applied to below has distinct
  entries). \<^verbatim>\<open>arr[ix]\<close> with an index array raises IndexError as soon as one index is
  out of range.
\<close>

definition np_where :: "bool list \<Rightarrow> nat list" where
  "np_where bs = filter (\<lambda>i. bs ! i) [0..<length bs]"

definition in1d :: "nat list \<Rightarrow> nat list \<Rightarrow> bool list" where
  "in1d ar1 ar2 = map (\<lambda>x. x \<in> set ar2) ar1"

definition argsort :: "'a::linorder list \<Rightarrow> nat list" where
  "argsort xs = map snd (sort_key fst (zip xs [0..<length xs]))"

definition index_array :: "'a list \<Rightarrow> nat list \<Rightarrow> py_error + 'a list" where
  "index_array arr ix =
     (if list_all (\<lambda>i. i < length arr) ix then Inr (map (\<lambda>i. arr ! i) ix)
      else Inl IndexError)"

subsection \<open>Ring and inner subsets: \<^verbatim>\<open>main\<close> of blmm\_results.py, lines 191 to 209\<close>

text \<open>
  \<open>Mask\<close> and \<open>n_sv\<close> are the two volumes reshaped to \<open>v\<close> rows before the loop
  (the reshape raises unless each holds exactly \<open>v\<close> values); \<open>bamInds_cv\<close> is the
  current group and \<open>amInds\<close> the index list of the analysis mask, which is computed by
  a routine of the library and taken here as it is.
\<close>

definition Mask_cv :: "nat \<Rightarrow> int list \<Rightarrow> nat list \<Rightarrow> int list" where
  "Mask_cv v Mask bamInds_cv =
     map2 (\<lambda>m keep. if \<not> keep then 0 else m) Mask (in1d [0..<v] bamInds_cv)"

definition R_inds :: "nat \<Rightarrow> int list \<Rightarrow> int list \<Rightarrow> int \<Rightarrow> nat list \<Rightarrow> nat list" where
  "R_inds v Mask n_sv n bamInds_cv =
     sort (np_where (map2 (\<lambda>m k. m = 1 \<and> k < n) (Mask_cv v Mask bamInds_cv) n_sv))"

definition R_inds_am ::
  "nat \<Rightarrow> int list \<Rightarrow> int list \<Rightarrow> int \<Rightarrow> nat list \<Rightarrow> nat list \<Rightarrow> py_error + nat list" where
  "R_inds_am v Mask n_sv n amInds bamInds_cv =
     (let R = R_inds v Mask n_sv n bamInds_cv;
          ix_r = argsort (argsort R)
      in index_array (sort (np_where (in1d amInds R))) ix_r)"

definition I_inds :: "nat \<Rightarrow> int list \<Rightarrow> int list \<Rightarrow> int \<Rightarrow> nat list \<Rightarrow> nat list" where
  "I_inds v Mask n_sv n bamInds_cv =
     sort (np_where (map2 (\<lambda>m k. m = 1 \<and> k = n) (Mask_cv v Mask bamInds_cv) n_sv))"

definition I_inds_am ::
  "nat \<Rightarrow> int list \<Rightarrow> int list \<Rightarrow> int \<Rightarrow> nat list \<Rightarrow> nat list \<Rightarrow> py_error + nat list" where
  "I_inds_am v Mask n_sv n amInds bamInds_cv =
     (let I = I_inds v Mask n_sv n bamInds_cv;
          ix_i = argsort (argsort I)
      in index_array (sort (np_where (in1d amInds I))) ix_i)"

subsection \<open>Resolving the unique product matrices: \<^verbatim>\<open>readUniqueAtB\<close>\<close>

text \<open>
  The store of unique matrices is a two-dimensional array: \<open>ncols\<close> is its second
  dimension and \<open>rows\<close> its rows. The uniqueness mask is the flattened volume of
  labels. The result is one row per voxel when \<open>sv\<close> holds and a single row otherwise.
\<close>

record 'a npy =
  ncols :: nat
  rows :: "'a list list"

datatype 'a AtB = PerVoxel "'a list list" | Shared "'a list"

definition np_int32 :: "int \<Rightarrow> int" where
  "np_int32 x = sint (word_of_int x :: 32 word)"

fun amax :: "int list \<Rightarrow> py_error + int" where
  "amax [] = Inl ValueError"
| "amax (x # xs) = Inr (fold max xs x)"

text \<open>
  The loop \<^verbatim>\<open>for m in range(1,maxM+1)\<close> on the spatially varying path: the row
  \<^verbatim>\<open>AtB_unique[(m-1),:]\<close> is read at every \<open>m\<close>, also when no voxel carries the label.
\<close>

fun fill_sv :: "int list \<Rightarrow> 'a list list \<Rightarrow> int list \<Rightarrow> 'a list list \<Rightarrow> py_error + 'a list list" where
  "fill_sv uniquenessMask AtB_unique [] AtB = Inr AtB"
| "fill_sv uniquenessMask AtB_unique (m # ms) AtB =
     (if nat (m - 1) < length AtB_unique then
        fill_sv uniquenessMask AtB_unique ms
          (map2 (\<lambda>l row. if l = m then AtB_unique ! nat (m - 1) else row) uniquenessMask AtB)
      else Inl IndexError)"

text \<open>
  The same loop on the shared path: the row is read only when the label of the first
  voxel equals \<open>m\<close>; \<open>AtB\<close> stays unbound when no \<open>m\<close> matches.
\<close>

fun fill_shared :: "int \<Rightarrow> 'a list list \<Rightarrow> int list \<Rightarrow> 'a list option \<Rightarrow> py_error + 'a list option" where
  "fill_shared uniquenessMask AtB_unique [] AtB = Inr AtB"
| "fill_shared uniquenessMask AtB_unique (m # ms) AtB =
     (if uniquenessMask = m then
        (if nat (m - 1) < length AtB_unique then
           fill_shared uniquenessMask AtB_unique ms (Some (AtB_unique ! nat (m - 1)))
         else Inl IndexError)
      else fill_shared uniquenessMask AtB_unique ms AtB)"

definition readUniqueAtB ::
  "int list \<Rightarrow> ('a::zero) npy \<Rightarrow> nat list \<Rightarrow> bool \<Rightarrow> py_error + 'a AtB" where
  "readUniqueAtB uniquenessMask AtB_unique vinds sv =
     (case amax uniquenessMask of
        Inl e \<Rightarrow> Inl e
      | Inr mx \<Rightarrow>
          (let maxM = np_int32 mx in
           if sv then
             (case index_array uniquenessMask vinds of
                Inl e \<Rightarrow> Inl e
              | Inr um \<Rightarrow>
                  (case fill_sv um (rows AtB_unique) [1..maxM]
                          (replicate (length vinds) (replicate (ncols AtB_unique) 0)) of
                     Inl e \<Rightarrow> Inl e
                   | Inr AtB \<Rightarrow> Inr (PerVoxel AtB)))
           else
             (case vinds of
                [] \<Rightarrow> Inl IndexError
              | v0 # _ \<Rightarrow>
                  if \<not> v0 < length uniquenessMask then Inl IndexError
                  else
                    (case fill_shared (uniquenessMask ! v0) (rows AtB_unique) [1..maxM] None of
                       Inl e \<Rightarrow> Inl e
                     | Inr None \<Rightarrow> Inl UnboundLocalError
                     | Inr (Some AtB) \<Rightarrow> Inr (Shared AtB)))))"

subsection \<open>The number of fixed effects and the reshape of X'Y: lines 112 to 116 and 229\<close>

text \<open>
  An array is its shape and its values in row-major order. \<^verbatim>\<open>reshape\<close> keeps the
  values and raises unless the new shape holds as many values as the array has.
\<close>

datatype 'a ndarray = NDArray (shape: "nat list") (flat: "'a list")

definition ndim :: "'a ndarray \<Rightarrow> nat" where
  "ndim A = length (shape A)"

definition reshape :: "'a ndarray \<Rightarrow> nat list \<Rightarrow> py_error + 'a ndarray" where
  "reshape A newshape =
     (if prod_list newshape = length (flat A) then Inr (NDArray newshape (flat A))
      else Inl ValueError)"

text \<open>
  \<^verbatim>\<open>p = L1.shape[0]\<close>, where \<open>L1\<close> is the array of the first contrast of the
  configuration: an IndexError when the list of contrasts is empty or the array has no
  dimension.
\<close>

definition get_p :: "'a ndarray list \<Rightarrow> py_error + nat" where
  "get_p contrasts =
     (case contrasts of
        [] \<Rightarrow> Inl IndexError
      | L1 # _ \<Rightarrow> (case shape L1 of [] \<Rightarrow> Inl IndexError | d # _ \<Rightarrow> Inr d))"

text \<open>
  \<open>lines\<close> is what \<^verbatim>\<open>readLinesFromNPY\<close> returned for the \<open>v_r\<close> rows of the ring.
\<close>

definition XtY_r :: "'a ndarray list \<Rightarrow> 'b ndarray \<Rightarrow> nat \<Rightarrow> py_error + 'b ndarray" where
  "XtY_r contrasts lines v_r =
     (case get_p contrasts of
        Inl e \<Rightarrow> Inl e
      | Inr p \<Rightarrow> reshape lines [v_r, p, 1])"

subsection \<open>Output bookkeeping of the inference stage: \<^verbatim>\<open>main\<close> of blmm\_inference.py\<close>

text \<open>
  Every call of \<^verbatim>\<open>addBlockToNifti\<close> is recorded as the file it writes, the frame
  \<open>volc\<close> (None for a block that fills all frames) and the number of frames of the
  volume (None for a three-dimensional volume). The values written are not modelled.
  The configuration is reduced to the two entries the bookkeeping reads: the optional
  key \<^verbatim>\<open>OutputCovB\<close> and the arrays of the contrasts, in the order of the file
  (each is what \<^verbatim>\<open>np.array(blmm_eval(...))\<close> gives for the entry).
\<close>

datatype yaml = YBool bool | YInt int | YStr string | YNull

fun truthy :: "yaml \<Rightarrow> bool" where
  "truthy (YBool b) = b"
| "truthy (YInt i) = (i \<noteq> 0)"
| "truthy (YStr s) = (s \<noteq> [])"
| "truthy YNull = False"

record 'a inputs =
  OutputCovB :: "yaml option"
  contrasts :: "'a ndarray list"

record nifti_write =
  fname :: string
  volc :: "nat option"
  nframes :: "nat option"

datatype stat = T | F

definition statType :: "'a ndarray \<Rightarrow> stat" where
  "statType L = (if ndim L = 1 then T else F)"

fun count_contrasts :: "'a ndarray list \<Rightarrow> nat \<Rightarrow> nat \<Rightarrow> nat \<times> nat" where
  "count_contrasts [] nt nf = (nt, nf)"
| "count_contrasts (L # Ls) nt nf =
     (if ndim L = 1 then count_contrasts Ls (nt + 1) nf
      else count_contrasts Ls nt (nf + 1))"

definition T_files :: "string list" where
  "T_files = [''blmm_vox_con.nii'', ''blmm_vox_conSE.nii'', ''blmm_vox_conT_swedf.nii'',
              ''blmm_vox_conT.nii'', ''blmm_vox_conTlp.nii'']"

definition F_files :: "string list" where
  "F_files = [''blmm_vox_conF_swedf.nii'', ''blmm_vox_conF.nii'', ''blmm_vox_conFlp.nii'',
              ''blmm_vox_conR2.nii'']"

text \<open>
  The function is declared \<^verbatim>\<open>def main(*args)\<close>. Its body never unpacks \<open>args\<close>; it
  reads \<^verbatim>\<open>inputs\<close>, \<^verbatim>\<open>inds\<close>, \<^verbatim>\<open>XtX\<close> and the other quantities by name. A name
  that a function only reads is looked up in the scope of the module: the names that the
  import statements of the file bind (\<open>module_names\<close>) and the names that its two star
  imports bind, from modules that are not part of the two files and are taken as the
  parameter \<open>star\<close>. The body is the sequence of its statements, each one the global
  names it reads and the write it makes; \<open>run\<close> executes the sequence and stops with a
  NameError at the first statement that reads a name bound nowhere. \<open>inp\<close> and \<open>p\<close> are
  what \<^verbatim>\<open>inputs\<close> and \<^verbatim>\<open>XtX.shape[1]\<close> denote when these names are bound. Exceptions
  raised inside the library routines are not modelled.
\<close>

datatype action = Read "string list" | Write nifti_write

fun run :: "(string \<Rightarrow> bool) \<Rightarrow> action list \<Rightarrow> nifti_write list \<times> py_error option" where
  "run bound [] = ([], None)"
| "run bound (Read names # acts) =
     (if list_all bound names then run bound acts else ([], Some NameError))"
| "run bound (Write w # acts) = (case run bound acts of (ws, e) \<Rightarrow> (w # ws, e))"

fun writes_of :: "action list \<Rightarrow> nifti_write list" where
  "writes_of [] = []"
| "writes_of (Read names # acts) = writes_of acts"
| "writes_of (Write w # acts) = w # writes_of acts"

definition module_names :: "string list" where
  "module_names = [''w'', ''np'', ''subprocess'', ''warnings'', ''resource'', ''nib'', ''sys'',
     ''os'', ''glob'', ''shutil'', ''yaml'', ''time'', ''blmm_eval'', ''stats'', ''blmm_load'',
     ''pSFS'', ''main'']"

definition write_names :: "string list" where
  "write_names = [''addBlockToNifti'', ''os'', ''OutDir'', ''inds'', ''NIFTIsize'', ''nifti'']"

definition swdf_names :: "string list" where
  "swdf_names = [''D'', ''sigma2'', ''ZtX'', ''ZtY'', ''XtX'', ''ZtZ'', ''XtY'', ''YtX'', ''YtZ'',
     ''XtZ'', ''YtY'', ''n'', ''nlevels'', ''nparams'']"

fun reads_before :: "string \<Rightarrow> string list" where
  "reads_before f =
     (if f = ''blmm_vox_con.nii'' then [''beta'']
      else if f = ''blmm_vox_conSE.nii'' then [''np'', ''get_varLB3D'', ''XtX'', ''XtZ'', ''sigma2'']
      else if f = ''blmm_vox_conT_swedf.nii'' then ''get_swdf_T3D'' # swdf_names
      else if f = ''blmm_vox_conT.nii'' then [''get_T3D'', ''XtX'', ''XtZ'', ''beta'', ''sigma2'']
      else if f = ''blmm_vox_conTlp.nii'' then [''T2P3D'', ''inputs'']
      else if f = ''blmm_vox_conF_swedf.nii'' then ''get_swdf_F3D'' # swdf_names
      else if f = ''blmm_vox_conF.nii'' then [''get_F3D'', ''XtX'', ''XtZ'', ''beta'', ''sigma2'']
      else if f = ''blmm_vox_conFlp.nii'' then [''F2P3D'', ''inputs'']
      else if f = ''blmm_vox_conR2.nii'' then [''get_R23D'']
      else [])"

definition block_actions :: "string list \<Rightarrow> nat \<Rightarrow> nat \<Rightarrow> action list" where
  "block_actions files current n =
     Read [''NIFTIsize'']
     # concat (map (\<lambda>f. [Read (reads_before f), Read write_names,
                           Write \<lparr>fname = f, volc = Some current, nframes = Some n\<rparr>]) files)"

definition read_contrast :: "action list" where
  "read_contrast = [Read [''blmm_eval'', ''inputs''], Read [''np'']]"

fun contrast_loop ::
  "nat \<Rightarrow> nat \<Rightarrow> nat \<Rightarrow> nat \<Rightarrow> 'a ndarray list \<Rightarrow> action list list" where
  "contrast_loop nt nf current_nt current_nf [] = []"
| "contrast_loop nt nf current_nt current_nf (L # Ls) =
     (if statType L = T then
        (read_contrast @ block_actions T_files current_nt nt)
          # contrast_loop nt nf (current_nt + 1) current_nf Ls
      else
        (read_contrast @ block_actions F_files current_nf nf)
          # contrast_loop nt nf current_nt (current_nf + 1) Ls)"

definition contrast_actions :: "'a ndarray list \<Rightarrow> action list list" where
  "contrast_actions Ls =
     (case count_contrasts Ls 0 0 of (nt, nf) \<Rightarrow> contrast_loop nt nf 0 0 Ls)"

definition prelude :: "action list" where
  "prelude =
     [Read [''np'', ''inds''], Read [''XtX''], Read [''np'', ''nparams'', ''nlevels''],
      Read [''np'', ''nparams''], Read [''inputs''], Read [''D'', ''np'', ''ZtZ''],
      Read [''ZtY'', ''ZtX'', ''beta''], Read [''ssr3D'', ''YtX'', ''YtY'', ''XtX'', ''beta'']]"

definition llh_actions :: "action list" where
  "llh_actions =
     [Read [''llh3D'', ''n'', ''ZtZ'', ''sigma2'', ''D'', ''XtX'', ''XtZ'', ''ZtX'', ''np''],
      Read write_names,
      Write \<lparr>fname = ''blmm_vox_llh.nii'', volc = Some 0, nframes = None\<rparr>]"

definition resms_actions :: "action list" where
  "resms_actions =
     [Read [''getesms3D'', ''YtX'', ''YtY'', ''XtX'', ''beta'', ''n''],
      Read write_names,
      Write \<lparr>fname = ''blmm_voxesms.nii'', volc = Some 0, nframes = None\<rparr>]"

definition covB_actions :: "'a inputs \<Rightarrow> nat \<Rightarrow> action list" where
  "covB_actions inp p =
     Read [''inputs'']
     # (let OutputCovB = (case OutputCovB inp of Some b \<Rightarrow> truthy b | None \<Rightarrow> True)
        in if OutputCovB
           then [Read [''NIFTIsize''], Read [''get_covB3D'', ''XtX'', ''XtZ'', ''sigma2''],
                 Read write_names,
                 Write \<lparr>fname = ''blmm_vox_cov.nii'', volc = None, nframes = Some (p\<^sup>2)\<rparr>]
           else [])"

definition main_actions :: "'a inputs \<Rightarrow> nat \<Rightarrow> action list" where
  "main_actions inp p =
     prelude @ llh_actions @ resms_actions @ covB_actions inp p
     @ concat (map (\<lambda>L. read_contrast) (contrasts inp))
     @ concat (contrast_actions (contrasts inp))"

definition main :: "string list \<Rightarrow> 'v list \<Rightarrow> 'a inputs \<Rightarrow> nat \<Rightarrow> nifti_write list \<times> py_error option" where
  "main star args inp p = run (\<lambda>x. x \<in> set (module_names @ star)) (main_actions inp p)"

definition helper_names :: "string list" where
  "helper_names = [''ssr3D'', ''llh3D'', ''addBlockToNifti'', ''getesms3D'', ''get_covB3D'',
     ''get_varLB3D'', ''get_swdf_T3D'', ''get_T3D'', ''T2P3D'', ''get_swdf_F3D'', ''get_F3D'',
     ''F2P3D'', ''get_R23D'']"

definition data_names :: "string list" where
  "data_names = [''inds'', ''XtX'', ''nparams'', ''nlevels'', ''inputs'', ''D'', ''ZtZ'', ''ZtY'',
     ''ZtX'', ''beta'', ''YtX'', ''YtY'', ''n'', ''sigma2'', ''XtZ'', ''OutDir'', ''NIFTIsize'',
     ''nifti'', ''XtY'', ''YtZ'']"

subsection \<open>Facts about float64 rounding\<close>














subsection \<open>Facts about the voxel groups\<close>














text \<open>
  Rounding matters at the default budget \<open>2\<^sup>3\<^sup>2\<close>: with \<open>q = 1024\<close> the quotient 51.2
  is not a double and \<open>nvb\<close> is the double just above it, so that 256 voxels make 5
  groups, where the same expression in exact arithmetic gives 6.
\<close>

lemma nvg_default_budget_example:
  "nvg (2 ^ 32) 1024 256 = Inr 5
   \<and> nvb (2 ^ 32) 1024 = 7205759403792794 / 2 ^ 47
   \<and> \<lfloor>(256::rat) / (of_int (2 ^ 32) / of_int (10 * 8 * 1024\<^sup>2))\<rfloor> + 1 = 6"
proof -
  have "nvg (2 ^ 32) 1024 256 = Inr 5" by code_simp
  moreover have "nvb (2 ^ 32) 1024 = 7205759403792794 / 2 ^ 47" by code_simp
  moreover have "\<lfloor>(256::rat) / (of_int (2 ^ 32) / of_int (10 * 8 * 1024\<^sup>2))\<rfloor> + 1 = 6"
    by simp
  ultimately show ?thesis by simp
qed

subsection \<open>Facts about the ring and inner subsets\<close>

lemma set_np_where: "set (np_where bs) = {i. i < length bs \<and> bs ! i}"
  by (auto simp: np_where_def)

lemma sorted_np_where: "sorted (np_where bs)"
  unfolding np_where_def by (rule sorted_wrt_filter) simp

lemma distinct_np_where: "distinct (np_where bs)"
  by (simp add: np_where_def)

lemma sort_np_where: "sort (np_where bs) = np_where bs"
  by (simp add: sorted_sort_id sorted_np_where)

lemma length_Mask_cv: "length Mask = v \<Longrightarrow> length (Mask_cv v Mask bamInds_cv) = v"
  by (simp add: Mask_cv_def in1d_def)

lemma nth_Mask_cv:
  "length Mask = v \<Longrightarrow> i < v \<Longrightarrow>
     Mask_cv v Mask bamInds_cv ! i = (if i \<in> set bamInds_cv then Mask ! i else 0)"
  by (simp add: Mask_cv_def in1d_def)

lemma set_R_inds:
  assumes "length Mask = v" "length n_sv = v"
  shows "set (R_inds v Mask n_sv n bamInds_cv) =
           {i. i < v \<and> i \<in> set bamInds_cv \<and> Mask ! i = 1 \<and> n_sv ! i < n}"
  using assms
  by (auto simp: R_inds_def sort_np_where set_np_where length_Mask_cv nth_Mask_cv
      split: if_splits)

lemma set_I_inds:
  assumes "length Mask = v" "length n_sv = v"
  shows "set (I_inds v Mask n_sv n bamInds_cv) =
           {i. i < v \<and> i \<in> set bamInds_cv \<and> Mask ! i = 1 \<and> n_sv ! i = n}"
  using assms
  by (auto simp: I_inds_def sort_np_where set_np_where length_Mask_cv nth_Mask_cv
      split: if_splits)

text \<open>
  Claim C3. In every group, when no voxel has more than \<open>n\<close> observations, the ring
  (mask 1 and \<open>n_sv < n\<close>) and the inner subset (mask 1 and \<open>n_sv = n\<close>) share no
  voxel and together are exactly the voxels of the group whose mask value is 1 (the
  whole group, when the mask is 1 on all of it). Every ring voxel has strictly fewer
  than \<open>n\<close> observations: a voxel with \<open>n_sv = n\<close> is inner, never ring.
\<close>

theorem ring_inner_partition:
  assumes "length Mask = v" and "length n_sv = v" and "\<forall>k \<in> set n_sv. k \<le> n"
  shows "set (R_inds v Mask n_sv n bamInds_cv) \<inter> set (I_inds v Mask n_sv n bamInds_cv) = {}
       \<and> set (R_inds v Mask n_sv n bamInds_cv) \<union> set (I_inds v Mask n_sv n bamInds_cv)
           = {i. i < v \<and> i \<in> set bamInds_cv \<and> Mask ! i = 1}
       \<and> (\<forall>i \<in> set (R_inds v Mask n_sv n bamInds_cv). n_sv ! i < n)
       \<and> (\<forall>i \<in> set (I_inds v Mask n_sv n bamInds_cv). n_sv ! i = n)
       \<and> ((\<forall>i \<in> set bamInds_cv. i < v \<and> Mask ! i = 1) \<longrightarrow>
            set (R_inds v Mask n_sv n bamInds_cv) \<union> set (I_inds v Mask n_sv n bamInds_cv)
              = set bamInds_cv)"
proof -
  have le: "n_sv ! i \<le> n" if "i < v" for i
    using assms(2,3) that by (simp add: all_set_conv_all_nth)
  have "n_sv ! i < n \<or> n_sv ! i = n" if "i < v" for i
    using le [OF that] by linarith
  then show ?thesis
    unfolding set_R_inds [OF assms(1,2)] set_I_inds [OF assms(1,2)] by auto
qed

theorem ring_inner_partition_witness:
  "R_inds 6 [1, 1, 0, 1, 1, 1] [3, 5, 5, 5, 2, 5] 5 [0, 1, 2, 3, 5] = [0]
   \<and> I_inds 6 [1, 1, 0, 1, 1, 1] [3, 5, 5, 5, 2, 5] 5 [0, 1, 2, 3, 5] = [1, 3, 5]
   \<and> set [0::nat] \<inter> set [1, 3, 5] = {}
   \<and> set [0] \<union> set [1, 3, 5]
       = {i. i < 6 \<and> i \<in> set [0, 1, 2, 3, 5] \<and> [1, 1, 0, 1, 1, 1::int] ! i = 1}
   \<and> set (R_inds 6 [1, 1, 0, 1, 1, 1] [3, 5, 5, 5, 2, 5] 5 [0, 1, 4])
       \<union> set (I_inds 6 [1, 1, 0, 1, 1, 1] [3, 5, 5, 5, 2, 5] 5 [0, 1, 4]) = set [0, 1, 4]"
proof -
  have R: "R_inds 6 [1, 1, 0, 1, 1, 1] [3, 5, 5, 5, 2, 5] 5 [0, 1, 2, 3, 5] = [0]"
    by code_simp
  have I: "I_inds 6 [1, 1, 0, 1, 1, 1] [3, 5, 5, 5, 2, 5] 5 [0, 1, 2, 3, 5] = [1, 3, 5]"
    by code_simp
  have first: "set [0::nat] \<inter> set [1, 3, 5] = {}
     \<and> set [0] \<union> set [1, 3, 5]
         = {i. i < 6 \<and> i \<in> set [0, 1, 2, 3, 5] \<and> [1, 1, 0, 1, 1, 1::int] ! i = 1}"
    using ring_inner_partition [of "[1, 1, 0, 1, 1, 1]" 6 "[3, 5, 5, 5, 2, 5]" 5 "[0, 1, 2, 3, 5]"]
    unfolding R I by simp
  have second: "set (R_inds 6 [1, 1, 0, 1, 1, 1] [3, 5, 5, 5, 2, 5] 5 [0, 1, 4])
       \<union> set (I_inds 6 [1, 1, 0, 1, 1, 1] [3, 5, 5, 5, 2, 5] 5 [0, 1, 4]) = set [0, 1, 4]"
  proof -
    have len: "length [1, 1, 0, 1, 1, 1::int] = 6" "length [3, 5, 5, 5, 2, 5::int] = 6"
      by simp_all
    have obs: "\<forall>k \<in> set [3, 5, 5, 5, 2, 5::int]. k \<le> 5"
      by simp
    have mask: "\<forall>i \<in> set [0, 1, 4::nat]. i < 6 \<and> [1, 1, 0, 1, 1, 1::int] ! i = 1"
      by simp
    show ?thesis
      using ring_inner_partition [OF len obs, of "[0, 1, 4]"] mask by blast
  qed
  show ?thesis
    using R I first second by simp
qed

lemma argsort_sorted: "sorted xs \<Longrightarrow> argsort xs = [0..<length xs]"
proof -
  assume "sorted xs"
  then have "sorted (map fst (zip xs [0..<length xs]))" by simp
  then have "sort_key fst (zip xs [0..<length xs]) = zip xs [0..<length xs]"
    by (rule sort_key_id_if_sorted)
  then show ?thesis by (simp add: argsort_def)
qed

lemma argsort_argsort_sorted: "sorted xs \<Longrightarrow> argsort (argsort xs) = [0..<length xs]"
  by (simp add: argsort_sorted)

lemma index_array_all: "index_array arr [0..<length arr] = Inr arr"
  by (simp add: index_array_def list_all_iff map_nth)

lemma map_nth_filter_upt:
  "map ((!) xs) (filter (\<lambda>j. P (xs ! j)) [0..<length xs]) = filter P xs"
proof -
  have "filter P xs = filter P (map ((!) xs) [0..<length xs])"
    by (simp add: map_nth)
  also have "\<dots> = map ((!) xs) (filter (P \<circ> (!) xs) [0..<length xs])"
    by (simp only: filter_map)
  finally show ?thesis by (simp add: comp_def)
qed

lemma np_where_in1d:
  "np_where (in1d amInds R) = filter (\<lambda>j. amInds ! j \<in> set R) [0..<length amInds]"
  unfolding np_where_def in1d_def
  by (rule filter_cong) auto

lemma positions_of_subset:
  assumes "sorted amInds" "distinct amInds" "sorted R" "distinct R" "set R \<subseteq> set amInds"
  shows "map ((!) amInds) (np_where (in1d amInds R)) = R"
proof -
  have "map ((!) amInds) (np_where (in1d amInds R)) = filter (\<lambda>x. x \<in> set R) amInds"
    unfolding np_where_in1d by (rule map_nth_filter_upt)
  moreover have "sorted (filter (\<lambda>x. x \<in> set R) amInds)"
    using assms(1) by (rule sorted_wrt_filter)
  moreover have "distinct (filter (\<lambda>x. x \<in> set R) amInds)"
    using assms(2) by simp
  moreover have "set (filter (\<lambda>x. x \<in> set R) amInds) = set R"
    using assms(5) by auto
  ultimately show ?thesis
    using assms(3,4) by (metis sorted_distinct_set_unique)
qed

lemma inds_am_correct:
  assumes "sorted amInds" "distinct amInds" "sorted R" "distinct R" "set R \<subseteq> set amInds"
  shows "index_array (sort (np_where (in1d amInds R))) (argsort (argsort R))
           = Inr (np_where (in1d amInds R))"
proof -
  have "length (np_where (in1d amInds R)) = length R"
    using positions_of_subset [OF assms] by (metis length_map)
  then show ?thesis
    using index_array_all [of "np_where (in1d amInds R)"]
    by (simp add: sort_np_where argsort_argsort_sorted [OF assms(3)])
qed

lemma sorted_R_inds: "sorted (R_inds v Mask n_sv n bamInds_cv)"
  by (simp add: R_inds_def)

lemma distinct_R_inds: "distinct (R_inds v Mask n_sv n bamInds_cv)"
  by (simp add: R_inds_def distinct_np_where)

lemma sorted_I_inds: "sorted (I_inds v Mask n_sv n bamInds_cv)"
  by (simp add: I_inds_def)

lemma distinct_I_inds: "distinct (I_inds v Mask n_sv n bamInds_cv)"
  by (simp add: I_inds_def distinct_np_where)

text \<open>
  Claim C5. With \<open>amInds\<close> ascending without repetition and the group drawn from it,
  the index into \<open>amInds\<close> computed for rank \<open>i\<close> of the ring points at the
  \<open>i\<close>-th smallest full-volume index of the ring:
  \<open>amInds[R_inds_am[i]] = R_inds[i]\<close> for every \<open>i\<close>, no index is out of range, and
  the same holds for the inner subset.
\<close>

theorem rank_matching:
  assumes "length Mask = v" and "length n_sv = v"
    and "sorted amInds" and "distinct amInds" and "set bamInds_cv \<subseteq> set amInds"
  shows "(\<exists>am. R_inds_am v Mask n_sv n amInds bamInds_cv = Inr am
            \<and> length am = length (R_inds v Mask n_sv n bamInds_cv)
            \<and> (\<forall>i < length am. am ! i < length amInds
                  \<and> amInds ! (am ! i) = R_inds v Mask n_sv n bamInds_cv ! i))
       \<and> (\<exists>am. I_inds_am v Mask n_sv n amInds bamInds_cv = Inr am
            \<and> length am = length (I_inds v Mask n_sv n bamInds_cv)
            \<and> (\<forall>i < length am. am ! i < length amInds
                  \<and> amInds ! (am ! i) = I_inds v Mask n_sv n bamInds_cv ! i))"
proof -
  have key: "\<exists>am. index_array (sort (np_where (in1d amInds X))) (argsort (argsort X)) = Inr am
            \<and> length am = length X
            \<and> (\<forall>i < length am. am ! i < length amInds \<and> amInds ! (am ! i) = X ! i)"
    if X: "sorted X" "distinct X" "set X \<subseteq> set amInds" for X
  proof -
    let ?am = "np_where (in1d amInds X)"
    have m: "map ((!) amInds) ?am = X"
      by (rule positions_of_subset [OF assms(3,4) X])
    have len: "length ?am = length X"
      using m by (metis length_map)
    have "?am ! i < length amInds \<and> amInds ! (?am ! i) = X ! i" if "i < length ?am" for i
    proof
      have "?am ! i \<in> set ?am" using that by simp
      then show "?am ! i < length amInds"
        by (simp add: set_np_where in1d_def)
      show "amInds ! (?am ! i) = X ! i"
        using that m by (metis nth_map)
    qed
    then show ?thesis
      using inds_am_correct [OF assms(3,4) X] len by simp
  qed
  have "set (R_inds v Mask n_sv n bamInds_cv) \<subseteq> set amInds"
    using assms(5) by (auto simp: set_R_inds [OF assms(1,2)])
  moreover have "set (I_inds v Mask n_sv n bamInds_cv) \<subseteq> set amInds"
    using assms(5) by (auto simp: set_I_inds [OF assms(1,2)])
  ultimately show ?thesis
    using key [OF sorted_R_inds distinct_R_inds] key [OF sorted_I_inds distinct_I_inds]
    by (simp add: R_inds_am_def I_inds_am_def Let_def)
qed

theorem rank_matching_witness:
  "R_inds 6 [1, 1, 0, 1, 1, 1] [3, 5, 5, 2, 2, 5] 5 [1, 3, 4, 5] = [3, 4]
   \<and> R_inds_am 6 [1, 1, 0, 1, 1, 1] [3, 5, 5, 2, 2, 5] 5 [0, 1, 3, 4, 5] [1, 3, 4, 5] = Inr [2, 3]
   \<and> I_inds 6 [1, 1, 0, 1, 1, 1] [3, 5, 5, 2, 2, 5] 5 [1, 3, 4, 5] = [1, 5]
   \<and> I_inds_am 6 [1, 1, 0, 1, 1, 1] [3, 5, 5, 2, 2, 5] 5 [0, 1, 3, 4, 5] [1, 3, 4, 5] = Inr [1, 4]
   \<and> (\<exists>am. R_inds_am 6 [1, 1, 0, 1, 1, 1] [3, 5, 5, 2, 2, 5] 5 [0, 1, 3, 4, 5] [1, 3, 4, 5] = Inr am
         \<and> (\<forall>i < length am. [0, 1, 3, 4, 5] ! (am ! i)
               = R_inds 6 [1, 1, 0, 1, 1, 1] [3, 5, 5, 2, 2, 5] 5 [1, 3, 4, 5] ! i))"
proof -
  have R: "R_inds 6 [1, 1, 0, 1, 1, 1] [3, 5, 5, 2, 2, 5] 5 [1, 3, 4, 5] = [3, 4]"
    by code_simp
  have Ram: "R_inds_am 6 [1, 1, 0, 1, 1, 1] [3, 5, 5, 2, 2, 5] 5 [0, 1, 3, 4, 5] [1, 3, 4, 5]
      = Inr [2, 3]"
    by code_simp
  have I: "I_inds 6 [1, 1, 0, 1, 1, 1] [3, 5, 5, 2, 2, 5] 5 [1, 3, 4, 5] = [1, 5]"
    by code_simp
  have Iam: "I_inds_am 6 [1, 1, 0, 1, 1, 1] [3, 5, 5, 2, 2, 5] 5 [0, 1, 3, 4, 5] [1, 3, 4, 5]
      = Inr [1, 4]"
    by code_simp
  have "\<exists>am. R_inds_am 6 [1, 1, 0, 1, 1, 1] [3, 5, 5, 2, 2, 5] 5 [0, 1, 3, 4, 5] [1, 3, 4, 5] = Inr am
         \<and> (\<forall>i < length am. [0, 1, 3, 4, 5] ! (am ! i)
               = R_inds 6 [1, 1, 0, 1, 1, 1] [3, 5, 5, 2, 2, 5] 5 [1, 3, 4, 5] ! i)"
    using rank_matching [of "[1, 1, 0, 1, 1, 1]" 6 "[3, 5, 5, 2, 2, 5]" "[0, 1, 3, 4, 5]"
        "[1, 3, 4, 5]" 5]
    by auto
  then show ?thesis
    using R Ram I Iam by simp
qed

subsection \<open>Facts about the resolution of the unique matrices\<close>

lemma np_int32_id: "- (2 ^ 31) \<le> x \<Longrightarrow> x < 2 ^ 31 \<Longrightarrow> np_int32 x = x"
  by (simp add: np_int32_def int_word_sint)

lemma amax_Max: "um \<noteq> [] \<Longrightarrow> amax um = Inr (Max (set um))"
proof (cases um)
  case Nil
  assume "um \<noteq> []"
  with Nil show ?thesis by simp
next
  case (Cons x xs)
  have "Max (set (x # xs)) = fold max xs x"
    by (rule Max.set_eq_fold)
  then show ?thesis
    using Cons by (simp only: amax.simps)
qed

lemma fill_sv_ok:
  assumes "\<forall>m \<in> set ms. nat (m - 1) < length U" and "length A = length um"
  shows "fill_sv um U ms A =
           Inr (map2 (\<lambda>l row. if l \<in> set ms then U ! nat (l - 1) else row) um A)"
  using assms
proof (induction ms arbitrary: A)
  case Nil
  then have "map2 (\<lambda>l row. row) um A = A"
    by (simp add: list_eq_iff_nth_eq)
  then show ?case by simp
next
  case (Cons m ms)
  let ?A' = "map2 (\<lambda>l row. if l = m then U ! nat (m - 1) else row) um A"
  have len: "length ?A' = length um"
    using Cons.prems(2) by simp
  have "fill_sv um U (m # ms) A = fill_sv um U ms ?A'"
    using Cons.prems(1) by simp
  also have "\<dots> = Inr (map2 (\<lambda>l row. if l \<in> set ms then U ! nat (l - 1) else row) um ?A')"
    using Cons.prems(1) len by (intro Cons.IH) simp_all
  also have "map2 (\<lambda>l row. if l \<in> set ms then U ! nat (l - 1) else row) um ?A'
      = map2 (\<lambda>l row. if l \<in> set (m # ms) then U ! nat (l - 1) else row) um A"
    using Cons.prems(2) by (auto simp: list_eq_iff_nth_eq)
  finally show ?case .
qed

lemma fill_shared_notin:
  "l \<notin> set ms \<Longrightarrow> fill_shared l U ms A = Inr A"
  by (induction ms arbitrary: A) auto

lemma fill_shared_in:
  "l \<in> set ms \<Longrightarrow> nat (l - 1) < length U \<Longrightarrow>
     fill_shared l U ms A = Inr (Some (U ! nat (l - 1)))"
proof (induction ms arbitrary: A)
  case Nil
  then show ?case by simp
next
  case (Cons m ms)
  show ?case
  proof (cases "l = m")
    case True
    show ?thesis
    proof (cases "l \<in> set ms")
      case True
      with \<open>l = m\<close> Cons show ?thesis by simp
    next
      case False
      with \<open>l = m\<close> Cons.prems(2) show ?thesis
        by (simp add: fill_shared_notin)
    qed
  next
    case False
    with Cons show ?thesis by simp
  qed
qed

lemma index_array_ok:
  "\<forall>i \<in> set ix. i < length arr \<Longrightarrow> index_array arr ix = Inr (map ((!) arr) ix)"
  by (simp add: index_array_def list_all_iff)

text \<open>
  Claim C4. For a uniqueness mask whose labels lie in \<open>0..M\<close>, \<open>M\<close> the number of
  stored rows, and requested voxels inside the volume, the spatially varying path
  returns one row per requested voxel: the \<open>m\<close>-th stored row for a voxel labelled
  \<open>m \<ge> 1\<close> and a row of zeros for a voxel labelled 0. All rows resolved for one label
  are therefore the stored row of that label.
\<close>

theorem readUniqueAtB_sv:
  assumes "uniquenessMask \<noteq> []"
    and "\<forall>l \<in> set uniquenessMask. 0 \<le> l \<and> l \<le> int (length (rows AtB_unique))"
    and "length (rows AtB_unique) < 2 ^ 31"
    and "\<forall>i \<in> set vinds. i < length uniquenessMask"
  shows "\<exists>AtB. readUniqueAtB uniquenessMask AtB_unique vinds True = Inr (PerVoxel AtB)
           \<and> length AtB = length vinds
           \<and> (\<forall>k < length vinds.
                 AtB ! k = (if uniquenessMask ! (vinds ! k) = 0
                            then replicate (ncols AtB_unique) 0
                            else rows AtB_unique ! nat (uniquenessMask ! (vinds ! k) - 1)))"
proof -
  let ?mx = "Max (set uniquenessMask)"
  let ?um = "map ((!) uniquenessMask) vinds"
  let ?Z = "replicate (length vinds) (replicate (ncols AtB_unique) (0::'a))"
  let ?f = "\<lambda>l row. if l \<in> set [1..?mx] then rows AtB_unique ! nat (l - 1) else row"
  have mx_in: "?mx \<in> set uniquenessMask"
    using assms(1) by simp
  then have mx: "0 \<le> ?mx" "?mx \<le> int (length (rows AtB_unique))"
    using assms(2) by blast+
  have "int (length (rows AtB_unique)) < 2 ^ 31"
    using assms(3) by (metis of_nat_less_iff of_nat_numeral of_nat_power)
  then have cast: "np_int32 ?mx = ?mx"
    using mx by (intro np_int32_id) simp_all
  have valid: "\<forall>m \<in> set [1..?mx]. nat (m - 1) < length (rows AtB_unique)"
    using mx(2) by auto
  have fill: "fill_sv ?um (rows AtB_unique) [1..?mx] ?Z = Inr (map2 ?f ?um ?Z)"
    by (rule fill_sv_ok [OF valid]) simp
  have run: "readUniqueAtB uniquenessMask AtB_unique vinds True = Inr (PerVoxel (map2 ?f ?um ?Z))"
    by (simp add: readUniqueAtB_def amax_Max [OF assms(1)] cast
        index_array_ok [OF assms(4)] fill)
  have row: "map2 ?f ?um ?Z ! k =
      (if uniquenessMask ! (vinds ! k) = 0 then replicate (ncols AtB_unique) 0
       else rows AtB_unique ! nat (uniquenessMask ! (vinds ! k) - 1))"
    if k: "k < length vinds" for k
  proof -
    have "vinds ! k < length uniquenessMask"
      using assms(4) k by simp
    then have in_um: "uniquenessMask ! (vinds ! k) \<in> set uniquenessMask"
      by simp
    then have "0 \<le> uniquenessMask ! (vinds ! k)"
      using assms(2) by blast
    moreover have "uniquenessMask ! (vinds ! k) \<le> ?mx"
      using in_um by simp
    ultimately have "uniquenessMask ! (vinds ! k) \<in> set [1..?mx]
        \<longleftrightarrow> uniquenessMask ! (vinds ! k) \<noteq> 0"
      by auto
    then show ?thesis
      using k by simp
  qed
  show ?thesis
    using run row by simp
qed

theorem readUniqueAtB_sv_witness:
  "\<exists>AtB. readUniqueAtB [1, 0, 2, 2, 1] \<lparr>ncols = 2, rows = [[10, 11], [20, 21::int]]\<rparr> [0, 1, 3] True
            = Inr (PerVoxel AtB)
         \<and> AtB = [[10, 11], [0, 0], [20, 21]]
         \<and> AtB ! 0 = rows \<lparr>ncols = 2, rows = [[10, 11], [20, 21::int]]\<rparr> ! 0
         \<and> AtB ! 1 = replicate 2 0
         \<and> AtB ! 2 = rows \<lparr>ncols = 2, rows = [[10, 11], [20, 21::int]]\<rparr> ! 1"
proof -
  have ev: "readUniqueAtB [1, 0, 2, 2, 1] \<lparr>ncols = 2, rows = [[10, 11], [20, 21::int]]\<rparr> [0, 1, 3] True
      = Inr (PerVoxel [[10, 11], [0, 0], [20, 21]])"
    by code_simp
  show ?thesis
    using readUniqueAtB_sv [of "[1, 0, 2, 2, 1]" "\<lparr>ncols = 2, rows = [[10, 11], [20, 21::int]]\<rparr>" "[0, 1, 3]"]
    unfolding ev by (simp add: numeral_2_eq_2)
qed

text \<open>
  Claim C9. On the shared path the result is the same whatever voxels follow the first
  one in \<open>vinds\<close> (they may even lie outside the volume): only the label of
  \<open>vinds[0]\<close> is looked up and nothing compares it with the others. When that label
  is \<open>m\<close> in \<open>1..M\<close> the result is the \<open>m\<close>-th stored row.
\<close>

theorem readUniqueAtB_shared:
  "readUniqueAtB uniquenessMask AtB_unique (v0 # others) False
     = readUniqueAtB uniquenessMask AtB_unique [v0] False
   \<and> (v0 < length uniquenessMask \<and> 1 \<le> uniquenessMask ! v0
        \<and> uniquenessMask ! v0 \<le> int (length (rows AtB_unique))
        \<and> (\<forall>l \<in> set uniquenessMask. l < 2 ^ 31)
      \<longrightarrow> readUniqueAtB uniquenessMask AtB_unique (v0 # others) False
            = Inr (Shared (rows AtB_unique ! nat (uniquenessMask ! v0 - 1))))"
proof (intro conjI impI)
  show "readUniqueAtB uniquenessMask AtB_unique (v0 # others) False
     = readUniqueAtB uniquenessMask AtB_unique [v0] False"
    by (simp add: readUniqueAtB_def Let_def split: sum.splits)
next
  assume a: "v0 < length uniquenessMask \<and> 1 \<le> uniquenessMask ! v0
        \<and> uniquenessMask ! v0 \<le> int (length (rows AtB_unique))
        \<and> (\<forall>l \<in> set uniquenessMask. l < 2 ^ 31)"
  let ?mx = "Max (set uniquenessMask)"
  let ?l = "uniquenessMask ! v0"
  have ne: "uniquenessMask \<noteq> []" using a by auto
  have l_in: "?l \<in> set uniquenessMask" using a by simp
  then have le: "?l \<le> ?mx" by simp
  have "?mx \<in> set uniquenessMask" using ne by simp
  then have "?mx < 2 ^ 31" using a by blast
  moreover have "- (2 ^ 31) \<le> ?mx"
  proof -
    have "(- (2 ^ 31) :: int) \<le> 1" by simp
    also have "1 \<le> ?l" using a by blast
    finally show ?thesis using le by (rule order_trans)
  qed
  ultimately have cast: "np_int32 ?mx = ?mx" by (intro np_int32_id)
  have "?l \<in> set [1..?mx]" using a le by simp
  moreover have "nat (?l - 1) < length (rows AtB_unique)" using a by linarith
  ultimately have "fill_shared ?l (rows AtB_unique) [1..?mx] None
      = Inr (Some (rows AtB_unique ! nat (?l - 1)))"
    by (rule fill_shared_in)
  then show "readUniqueAtB uniquenessMask AtB_unique (v0 # others) False
            = Inr (Shared (rows AtB_unique ! nat (?l - 1)))"
    using a by (simp add: readUniqueAtB_def amax_Max [OF ne] cast)
qed

theorem readUniqueAtB_shared_witness:
  "readUniqueAtB [1, 0, 2, 2, 1] \<lparr>ncols = 2, rows = [[10, 11], [20, 21::int]]\<rparr> [3, 0, 1] False
     = Inr (Shared [20, 21])
   \<and> readUniqueAtB [1, 0, 2, 2, 1] \<lparr>ncols = 2, rows = [[10, 11], [20, 21::int]]\<rparr> [3, 0, 1] False
     = readUniqueAtB [1, 0, 2, 2, 1] \<lparr>ncols = 2, rows = [[10, 11], [20, 21::int]]\<rparr> [3] False"
  using readUniqueAtB_shared [of "[1, 0, 2, 2, 1]" "\<lparr>ncols = 2, rows = [[10, 11], [20, 21::int]]\<rparr>" 3 "[0, 1]"]
  by auto

subsection \<open>Facts about the inference stage\<close>

lemma main_NameError:
  "''inds'' \<notin> set star \<Longrightarrow> main star args inp p = ([], Some NameError)"
  by (simp add: main_def main_actions_def prelude_def module_names_def)

lemma inds_not_helper: "''inds'' \<notin> set helper_names"
  by (simp add: helper_names_def)

lemma run_all_bound:
  "(\<And>names. Read names \<in> set acts \<Longrightarrow> list_all bound names) \<Longrightarrow>
     run bound acts = (writes_of acts, None)"
proof (induction acts)
  case Nil
  then show ?case by simp
next
  case (Cons a acts)
  then show ?case by (cases a) simp_all
qed

lemma writes_of_append: "writes_of (xs @ ys) = writes_of xs @ writes_of ys"
  by (induction xs rule: writes_of.induct) simp_all

lemma writes_of_concat: "writes_of (concat xss) = concat (map writes_of xss)"
  by (induction xss) (simp_all add: writes_of_append)

lemma writes_of_block:
  "writes_of (block_actions files current n) =
     map (\<lambda>f. \<lparr>fname = f, volc = Some current, nframes = Some n\<rparr>) files"
  by (induction files) (simp_all add: block_actions_def)

lemma writes_of_read_contrast: "writes_of read_contrast = []"
  by (simp add: read_contrast_def)

text \<open>
  What the body does when no lookup fails: the writes are those of its statements, in
  order; the \<open>i\<close>-th contrast is written to the volumes of its type, at the frame that
  counts the contrasts of the same type before it; the type depends on the number of
  dimensions only; the covariance volume is written exactly when the flag is absent or
  true; the residual mean squares go to a volume of their own, and the statement that
  computes them does not read \<^verbatim>\<open>sigma2\<close>.
\<close>

lemma run_no_error:
  "run bound acts = (ws, None) \<Longrightarrow> ws = writes_of acts"
proof (induction acts arbitrary: ws)
  case Nil
  then show ?case by simp
next
  case (Cons a acts)
  show ?case
  proof (cases a)
    case (Read names)
    with Cons show ?thesis by (auto split: if_splits)
  next
    case (Write w)
    with Cons show ?thesis by (auto split: prod.splits)
  qed
qed

lemma count_contrasts_eq:
  "count_contrasts Ls nt nf =
     (nt + length (filter (\<lambda>L. statType L = T) Ls), nf + length (filter (\<lambda>L. statType L = F) Ls))"
  by (induction Ls arbitrary: nt nf) (auto simp: statType_def)

lemma length_contrast_loop: "length (contrast_loop nt nf ct cf Ls) = length Ls"
  by (induction Ls arbitrary: ct cf) auto

lemma length_contrast_actions: "length (contrast_actions Ls) = length Ls"
  by (simp add: contrast_actions_def length_contrast_loop split: prod.splits)

lemma contrast_loop_nth:
  "i < length Ls \<Longrightarrow>
     writes_of (contrast_loop nt nf ct cf Ls ! i) =
       (if statType (Ls ! i) = T
        then map (\<lambda>f. \<lparr>fname = f,
                        volc = Some (ct + length (filter (\<lambda>L. statType L = T) (take i Ls))),
                        nframes = Some nt\<rparr>) T_files
        else map (\<lambda>f. \<lparr>fname = f,
                        volc = Some (cf + length (filter (\<lambda>L. statType L = F) (take i Ls))),
                        nframes = Some nf\<rparr>) F_files)"
proof (induction Ls arbitrary: i ct cf)
  case Nil
  then show ?case by simp
next
  case (Cons L Ls)
  show ?case
  proof (cases i)
    case 0
    then show ?thesis
      by (simp add: writes_of_append writes_of_read_contrast writes_of_block)
  next
    case (Suc j)
    then have "j < length Ls" using Cons.prems by simp
    then show ?thesis
      using Suc Cons.IH [of j] by (cases "statType L") auto
  qed
qed

lemma contrast_actions_nth:
  assumes "i < length Ls"
  shows "writes_of (contrast_actions Ls ! i) =
           map (\<lambda>f. \<lparr>fname = f,
                  volc = Some (length (filter (\<lambda>L. statType L = statType (Ls ! i)) (take i Ls))),
                  nframes = Some (length (filter (\<lambda>L. statType L = statType (Ls ! i)) Ls))\<rparr>)
             (if statType (Ls ! i) = T then T_files else F_files)"
  using assms
  by (cases "statType (Ls ! i)")
     (simp_all add: contrast_actions_def count_contrasts_eq contrast_loop_nth)

lemma body_frame_assignment:
  assumes "i < length Ls"
  shows "writes_of (contrast_actions Ls ! i) \<noteq> []
       \<and> (\<forall>w \<in> set (writes_of (contrast_actions Ls ! i)).
             volc w = Some (length (filter (\<lambda>L. statType L = statType (Ls ! i)) (take i Ls)))
           \<and> nframes w = Some (length (filter (\<lambda>L. statType L = statType (Ls ! i)) Ls)))"
  by (auto simp: contrast_actions_nth [OF assms] T_files_def F_files_def)

lemma body_classification:
  assumes "i < length Ls"
  shows "map fname (writes_of (contrast_actions Ls ! i))
           = (if ndim (Ls ! i) = 1 then T_files else F_files)"
  by (simp add: contrast_actions_nth [OF assms] statType_def comp_def)

lemma writes_of_main_actions:
  "writes_of (main_actions inp p) =
     \<lparr>fname = ''blmm_vox_llh.nii'', volc = Some 0, nframes = None\<rparr>
     # \<lparr>fname = ''blmm_voxesms.nii'', volc = Some 0, nframes = None\<rparr>
     # writes_of (covB_actions inp p)
     @ concat (map writes_of (contrast_actions (contrasts inp)))"
proof -
  have "writes_of (concat (map (\<lambda>L. read_contrast) Ls)) = []" for Ls :: "'a ndarray list"
    by (induction Ls) (simp_all add: writes_of_append writes_of_read_contrast)
  then show ?thesis
    by (simp add: main_actions_def writes_of_append writes_of_concat prelude_def
        llh_actions_def resms_actions_def)
qed

lemma writes_of_covB:
  "writes_of (covB_actions inp p) =
     (if (case OutputCovB inp of Some b \<Rightarrow> truthy b | None \<Rightarrow> True)
      then [\<lparr>fname = ''blmm_vox_cov.nii'', volc = None, nframes = Some (p\<^sup>2)\<rparr>] else [])"
  by (simp add: covB_actions_def Let_def)

lemma contrast_file_names:
  assumes "ws \<in> set (map writes_of (contrast_actions Ls))" and "w \<in> set ws"
  shows "fname w \<in> set T_files \<union> set F_files"
proof -
  obtain i where i: "i < length Ls" and ws: "ws = writes_of (contrast_actions Ls ! i)"
    using assms(1) by (auto simp: in_set_conv_nth length_contrast_actions)
  show ?thesis
    using assms(2) unfolding ws contrast_actions_nth [OF i]
    by (auto split: if_splits)
qed

lemma body_covB:
  "filter (\<lambda>w. fname w = ''blmm_vox_cov.nii'') (writes_of (main_actions inp p)) =
     (if (case OutputCovB inp of Some b \<Rightarrow> truthy b | None \<Rightarrow> True)
      then [\<lparr>fname = ''blmm_vox_cov.nii'', volc = None, nframes = Some (p\<^sup>2)\<rparr>] else [])"
proof -
  have "fname w \<noteq> ''blmm_vox_cov.nii''"
    if w_in: "w \<in> set (concat (map writes_of (contrast_actions (contrasts inp))))" for w
  proof -
    obtain ws where "ws \<in> set (map writes_of (contrast_actions (contrasts inp)))"
      and "w \<in> set ws"
      using w_in by auto
    then have "fname w \<in> set T_files \<union> set F_files"
      by (rule contrast_file_names)
    then show ?thesis
      by (auto simp: T_files_def F_files_def)
  qed
  then have "filter (\<lambda>w. fname w = ''blmm_vox_cov.nii'')
      (concat (map writes_of (contrast_actions (contrasts inp)))) = []"
    by (simp add: filter_empty_conv)
  then show ?thesis
    by (simp add: writes_of_main_actions writes_of_covB)
qed

lemma body_resms:
  "filter (\<lambda>w. fname w = ''blmm_voxesms.nii'') (writes_of (main_actions inp p)) =
     [\<lparr>fname = ''blmm_voxesms.nii'', volc = Some 0, nframes = None\<rparr>]"
proof -
  have "fname w \<noteq> ''blmm_voxesms.nii''"
    if w_in: "w \<in> set (concat (map writes_of (contrast_actions (contrasts inp))))" for w
  proof -
    obtain ws where "ws \<in> set (map writes_of (contrast_actions (contrasts inp)))"
      and "w \<in> set ws"
      using w_in by auto
    then have "fname w \<in> set T_files \<union> set F_files"
      by (rule contrast_file_names)
    then show ?thesis
      by (auto simp: T_files_def F_files_def)
  qed
  then have "filter (\<lambda>w. fname w = ''blmm_voxesms.nii'')
      (concat (map writes_of (contrast_actions (contrasts inp)))) = []"
    by (simp add: filter_empty_conv)
  then show ?thesis
    by (simp add: writes_of_main_actions writes_of_covB)
qed

lemma resms_reads_no_sigma2:
  "\<forall>a \<in> set resms_actions. \<forall>names. a = Read names \<longrightarrow> ''sigma2'' \<notin> set names"
  by (simp add: resms_actions_def write_names_def)

text \<open>
  With the star imports binding every helper and every quantity the body reads, a vector
  and a matrix contrast are written to the T and to the F volumes.
\<close>

lemma body_runs_example:
  "snd (main (helper_names @ data_names) args
          \<lparr>OutputCovB = None,
             contrasts = [NDArray [2] [1, 0::int], NDArray [2, 2] [1, 0, 0, 1]]\<rparr> 2) = None
   \<and> map fname (fst (main (helper_names @ data_names) args
          \<lparr>OutputCovB = None,
             contrasts = [NDArray [2] [1, 0::int], NDArray [2, 2] [1, 0, 0, 1]]\<rparr> 2))
       = [''blmm_vox_llh.nii'', ''blmm_voxesms.nii'', ''blmm_vox_cov.nii''] @ T_files @ F_files"
  by (simp add: main_def main_actions_def prelude_def llh_actions_def resms_actions_def
      covB_actions_def contrast_actions_def read_contrast_def block_actions_def
      module_names_def helper_names_def data_names_def write_names_def swdf_names_def
      statType_def ndim_def T_files_def F_files_def)

text \<open>
  Claim C6 on the code as written. The star imports may bind every routine the body
  calls: as long as they do not bind \<^verbatim>\<open>inds\<close>, the first statement of the body raises
  NameError, for every argument list and every list of contrasts, and no frame of any
  volume is written.
\<close>

theorem frames_never_written:
  "main helper_names args \<lparr>OutputCovB = flag, contrasts = Ls\<rparr> p = ([], Some NameError)"
  by (rule main_NameError [OF inds_not_helper])

text \<open>
  Claim C8 on the code as written. Without the key \<^verbatim>\<open>OutputCovB\<close> the body would
  write the covariance volume with \<open>p\<^sup>2\<close> frames, but the function raises NameError at
  its first statement and writes nothing.
\<close>

theorem covB_never_written:
  "main helper_names args \<lparr>OutputCovB = None, contrasts = Ls\<rparr> p = ([], Some NameError)
   \<and> filter (\<lambda>w. fname w = ''blmm_vox_cov.nii'')
        (writes_of (main_actions \<lparr>OutputCovB = None, contrasts = Ls\<rparr> p))
       = [\<lparr>fname = ''blmm_vox_cov.nii'', volc = None, nframes = Some (p\<^sup>2)\<rparr>]"
  by (simp add: main_NameError [OF inds_not_helper] body_covB)

text \<open>
  Claim C7 on the code as written. The body would write the residual mean squares once,
  to \<^verbatim>\<open>blmm_voxesms.nii\<close>, but the function raises NameError at its first statement:
  nothing is written to that volume.
\<close>

theorem resms_never_written:
  "filter (\<lambda>w. fname w = ''blmm_voxesms.nii'') (fst (main helper_names args inp p)) = []
   \<and> snd (main helper_names args inp p) = Some NameError
   \<and> filter (\<lambda>w. fname w = ''blmm_voxesms.nii'') (writes_of (main_actions inp p))
       = [\<lparr>fname = ''blmm_voxesms.nii'', volc = Some 0, nframes = None\<rparr>]"
  by (simp add: main_NameError [OF inds_not_helper] body_resms)

text \<open>
  Claim C2 on the code as written, at the single-row matrix \<^verbatim>\<open>[[1, 0, 0]]\<close>: the
  function raises NameError before it classifies anything; and the test of the body looks
  at the number of dimensions only, so that this array, which has two, would be counted
  and written as an F contrast.
\<close>

theorem single_row_matrix_never_T:
  "main helper_names args \<lparr>OutputCovB = flag, contrasts = [NDArray [1, 3] [1, 0, 0::int]]\<rparr> p
     = ([], Some NameError)
   \<and> ndim (NDArray [1, 3] [1, 0, 0::int]) = 2
   \<and> statType (NDArray [1, 3] [1, 0, 0::int]) = F
   \<and> map fname (writes_of (contrast_actions [NDArray [1, 3] [1, 0, 0::int]] ! 0)) = F_files"
proof -
  have "map fname (writes_of (contrast_actions [NDArray [1, 3] [1, 0, 0::int]] ! 0)) = F_files"
    using body_classification [of 0 "[NDArray [1, 3] [1, 0, 0::int]]"] by (simp add: ndim_def)
  then show ?thesis
    by (simp add: main_NameError [OF inds_not_helper] ndim_def statType_def)
qed

subsection \<open>Facts about the reshape of X'Y\<close>

text \<open>
  Claim C10. \<open>p\<close> is the first dimension of the array of the first contrast (its
  length, for a vector). For a non-empty ring whose stored rows of X'Y have \<open>p_true\<close>
  entries each, the reshape to \<open>v_r \<times> p \<times> 1\<close> goes through exactly when
  \<open>p = p_true\<close>, and raises otherwise.
\<close>

theorem XtY_reshape:
  assumes "cs = L1 # others" and "shape L1 = k # ds"
    and "shape lines = [v_r, p_true]" and "length (flat lines) = prod_list (shape lines)"
    and "0 < v_r"
  shows "get_p cs = Inr k
       \<and> ((\<exists>A. XtY_r cs lines v_r = Inr A) \<longleftrightarrow> k = p_true)
       \<and> (k = p_true \<longrightarrow> XtY_r cs lines v_r = Inr (NDArray [v_r, p_true, 1] (flat lines)))
       \<and> (k \<noteq> p_true \<longrightarrow> XtY_r cs lines v_r = Inl ValueError)"
proof -
  have p: "get_p cs = Inr k"
    using assms(1,2) by (simp add: get_p_def)
  have len: "length (flat lines) = v_r * p_true"
    using assms(3,4) by simp
  have "v_r * k = v_r * p_true \<longleftrightarrow> k = p_true"
    using assms(5) by simp
  then show ?thesis
    using p len by (auto simp: XtY_r_def reshape_def)
qed

theorem XtY_reshape_witness:
  "XtY_r [NDArray [2] [1, 0::int]] (NDArray [3, 2] [1, 2, 3, 4, 5, 6::int]) 3
     = Inr (NDArray [3, 2, 1] [1, 2, 3, 4, 5, 6])
   \<and> XtY_r [NDArray [3] [1, 0, 0::int]] (NDArray [3, 2] [1, 2, 3, 4, 5, 6::int]) 3
     = Inl ValueError"
  using XtY_reshape [of "[NDArray [2] [1, 0::int]]" "NDArray [2] [1, 0]" "[]" 2 "[]"
      "NDArray [3, 2] [1, 2, 3, 4, 5, 6::int]" 3 2]
    XtY_reshape [of "[NDArray [3] [1, 0, 0::int]]" "NDArray [3] [1, 0, 0]" "[]" 3 "[]"
      "NDArray [3, 2] [1, 2, 3, 4, 5, 6::int]" 3 2]
  by simp

end
